theory Spec2Isabelle
  imports Complex_Main "HOL-Library.Multiset"
begin

section \<open>Exceptions, files and external processes\<close>

text \<open>
  The pipeline of \<^verbatim>\<open>multilang_fast_parallel.py\<close> is modelled with explicit state:
  the files on disk and the list of external processes started so far. Python's floats
  are idealised as real numbers; text is a list of bytes (UTF-8 for the Chinese messages
  and language names of the source).
\<close>

datatype exn =
    KeyError string
  | ValueError string
  | ZeroDivisionError
  | FileNotFoundError string
  | Raised string
    \<comment> \<open>an exception of a collaborator (gTTS, subprocess, file I/O), with its message\<close>

fun str_exn :: "exn \<Rightarrow> string" where
  "str_exn (KeyError k) = [CHR 0x27] @ k @ [CHR 0x27]"
| "str_exn (ValueError m) = m"
| "str_exn ZeroDivisionError = ''float division by zero''"
| "str_exn (FileNotFoundError p) = p"
| "str_exn (Raised m) = m"

datatype afilter =
    Atempo real
  | Anull
  | Loudnorm real real real  \<comment> \<open>\<^verbatim>\<open>loudnorm=I=..:TP=..:LRA=..\<close>\<close>
  | Afade_out real real  \<comment> \<open>\<^verbatim>\<open>afade=t=out:st=..:d=..\<close>\<close>
  | Dynaudnorm nat nat real nat  \<comment> \<open>\<^verbatim>\<open>dynaudnorm=f=..:g=..:p=..:m=..\<close>\<close>

text \<open>
  The argument lists handed to ffmpeg, one constructor for each shape the source builds.
  The last component is always the output path.
\<close>

datatype ffmpeg_cmd =
    Af string "afilter list" "real option" string
    \<comment> \<open>\<^verbatim>\<open>-i input -af chain [-t limit] output\<close>\<close>
  | Concat_silence string "afilter list" real string
    \<comment> \<open>\<^verbatim>\<open>-filter_complex\<close>: the chain on the input, then \<^verbatim>\<open>anullsrc\<close> trimmed to the given
       duration, concatenated\<close>
  | Amix "(string \<times> int) list" "afilter list" real string
    \<comment> \<open>inputs with their \<^verbatim>\<open>adelay\<close> in milliseconds, the chain after \<^verbatim>\<open>amix\<close>, \<^verbatim>\<open>-t\<close>\<close>
  | Burn_subtitles string string string
    \<comment> \<open>video, subtitle file, output (\<^verbatim>\<open>-vf subtitles=.. -an\<close>)\<close>
  | Mux string string "afilter list" string
    \<comment> \<open>video, audio, audio filter, output\<close>

fun cmd_output :: "ffmpeg_cmd \<Rightarrow> string" where
  "cmd_output (Af _ _ _ out) = out"
| "cmd_output (Concat_silence _ _ _ out) = out"
| "cmd_output (Amix _ _ _ out) = out"
| "cmd_output (Burn_subtitles _ _ out) = out"
| "cmd_output (Mux _ _ _ out) = out"

datatype proc = Ffprobe string | Ffmpeg ffmpeg_cmd

text \<open>
  The state: \<open>files\<close> maps each existing path to its size in bytes, \<open>calls\<close> lists every
  \<^verbatim>\<open>subprocess.run\<close> in the order it was made.
\<close>

record sys =
  files :: "string \<rightharpoonup> nat"
  calls :: "proc list"

datatype save_outcome = SaveRaises string | Saved nat

datatype duration_text = NoOutput | NotANumber | Seconds real

datatype probe_outcome = ProbeRaises string | ProbeStdout duration_text

text \<open>
  A run of ffmpeg either cannot be started (\<^verbatim>\<open>subprocess.run\<close> raises) or exits with a
  return code, having written a file of the given size at its output path or having left
  that path as it was.
\<close>

datatype run_outcome = RunRaises string | Exited int "nat option"

record subtitle =
  sub_start :: real
  sub_end :: real
  sub_content :: string

text \<open>
  What the world outside the program answers. Each collaborator is a function of the
  arguments of the call; \<open>finish_rank\<close> orders the completion of the segment tasks of one
  job, \<open>time_at_start\<close> and \<open>time_at_end\<close> are the two readings of \<^verbatim>\<open>time.time()\<close> in
  \<^verbatim>\<open>process_single_language\<close>.
\<close>

record world =
  gtts_save :: "string \<Rightarrow> string \<Rightarrow> string \<Rightarrow> save_outcome"
  ffprobe :: "string \<Rightarrow> probe_outcome"
  ffmpeg :: "ffmpeg_cmd \<Rightarrow> run_outcome"
  makedirs :: "string \<Rightarrow> string option"
  read_srt :: "string \<Rightarrow> string + subtitle list"
  write_srt :: "string \<Rightarrow> string + nat"
  finish_rank :: "nat \<Rightarrow> nat"
  time_at_start :: real
  time_at_end :: real

definition run_cmd :: "world \<Rightarrow> sys \<Rightarrow> ffmpeg_cmd \<Rightarrow> (exn + int) \<times> sys" where
  "run_cmd w s cmd =
     (let s1 = s\<lparr>calls := calls s @ [Ffmpeg cmd]\<rparr>
      in case ffmpeg w cmd of
           RunRaises m \<Rightarrow> (Inl (Raised m), s1)
         | Exited rc None \<Rightarrow> (Inr rc, s1)
         | Exited rc (Some n) \<Rightarrow> (Inr rc, s1\<lparr>files := (files s1)(cmd_output cmd \<mapsto> n)\<rparr>))"

definition os_remove :: "sys \<Rightarrow> string \<Rightarrow> exn + sys" where
  "os_remove s p =
     (if p \<in> dom (files s) then Inr (s\<lparr>files := (files s)(p := None)\<rparr>)
      else Inl (FileNotFoundError p))"

definition py_float :: "duration_text \<Rightarrow> exn + real" where
  \<comment> \<open>\<^verbatim>\<open>float(result.stdout.strip() or "0")\<close>\<close>
  "py_float t =
     (case t of
        NoOutput \<Rightarrow> Inr 0
      | NotANumber \<Rightarrow> Inl (ValueError ''could not convert string to float'')
      | Seconds x \<Rightarrow> Inr x)"


section \<open>The segment synthesizer\<close>

definition normalize_filter :: afilter where
  "normalize_filter = Loudnorm (- 16) (- 1.5) 11"

text \<open>
  Lines 99 to 133 of \<^verbatim>\<open>generate_segment_voice_fast\<close>: from the probed duration to the
  ffmpeg command. Both divisions raise on a zero divisor in Python.
\<close>

definition segment_command ::
  "string \<Rightarrow> string \<Rightarrow> real \<Rightarrow> real \<Rightarrow> real \<times> real \<Rightarrow> exn + ffmpeg_cmd" where
  "segment_command temp_initial output_file natural_duration target_duration speed_limit =
     (if target_duration = 0 then Inl ZeroDivisionError
      else
        let speed_ratio = natural_duration / target_duration;
            speed_ratio = max (fst speed_limit) (min speed_ratio (snd speed_limit));
            atempo_filter = (if \<bar>speed_ratio - 1.0\<bar> > 0.05 then Atempo speed_ratio else Anull)
        in if speed_ratio = 0 then Inl ZeroDivisionError
           else
             let adjusted_duration = natural_duration / speed_ratio
             in if adjusted_duration > target_duration + 0.1 then
                  Inr (Af temp_initial
                         [atempo_filter, normalize_filter,
                          Afade_out (max 0 (target_duration - 0.1)) 0.1]
                         (Some target_duration) output_file)
                else if adjusted_duration < target_duration - 0.1 then
                  let silence_duration = target_duration - adjusted_duration
                  in Inr (Concat_silence temp_initial [atempo_filter, normalize_filter]
                            silence_duration output_file)
                else
                  Inr (Af temp_initial
                         (if atempo_filter = Anull then [normalize_filter]
                          else [atempo_filter, normalize_filter])
                         None output_file))"

text \<open>
  The body of the \<^verbatim>\<open>try\<close> block: \<open>Inl\<close> is an exception, returned with the state at the
  moment it was raised. A failing \<^verbatim>\<open>tts.save\<close> is taken to leave no file behind.
\<close>

definition segment_body ::
  "world \<Rightarrow> sys \<Rightarrow> string \<Rightarrow> string \<Rightarrow> string \<Rightarrow> real \<Rightarrow> real \<times> real \<Rightarrow> (exn + bool) \<times> sys" where
  "segment_body w s text lang_code output_file target_duration speed_limit =
     (let temp_initial = output_file @ ''_init.mp3''
      in case gtts_save w text lang_code temp_initial of
           SaveRaises m \<Rightarrow> (Inl (Raised m), s)
         | Saved n \<Rightarrow>
             let s1 = s\<lparr>files := (files s)(temp_initial \<mapsto> n)\<rparr>;
                 s2 = s1\<lparr>calls := calls s1 @ [Ffprobe temp_initial]\<rparr>
             in case ffprobe w temp_initial of
                  ProbeRaises m \<Rightarrow> (Inl (Raised m), s2)
                | ProbeStdout t \<Rightarrow>
                    (case py_float t of
                       Inl e \<Rightarrow> (Inl e, s2)
                     | Inr natural_duration \<Rightarrow>
                         if natural_duration = 0 then
                           (case os_remove s2 temp_initial of
                              Inl e \<Rightarrow> (Inl e, s2)
                            | Inr s3 \<Rightarrow> (Inr False, s3))
                         else
                           (case segment_command temp_initial output_file natural_duration
                                   target_duration speed_limit of
                              Inl e \<Rightarrow> (Inl e, s2)
                            | Inr cmd \<Rightarrow>
                                (case run_cmd w s2 cmd of
                                   (Inl e, s3) \<Rightarrow> (Inl e, s3)
                                 | (Inr rc, s3) \<Rightarrow>
                                     (case os_remove s3 temp_initial of
                                        Inl e \<Rightarrow> (Inl e, s3)
                                      | Inr s4 \<Rightarrow>
                                          (Inr (case files s4 output_file of
                                                  None \<Rightarrow> False
                                                | Some n_bytes \<Rightarrow> n_bytes > 0), s4))))))"

definition generate_segment_voice_fast ::
  "world \<Rightarrow> sys \<Rightarrow> string \<Rightarrow> string \<Rightarrow> string \<Rightarrow> real \<Rightarrow> real \<times> real \<Rightarrow> bool \<times> sys" where
  "generate_segment_voice_fast w s text lang_code output_file target_duration speed_limit =
     (case segment_body w s text lang_code output_file target_duration speed_limit of
        (Inl e, s') \<Rightarrow> (False, s')
      | (Inr ok, s') \<Rightarrow> (ok, s'))"


section \<open>The timeline mixer\<close>

definition py_int :: "real \<Rightarrow> int" where
  \<comment> \<open>\<^verbatim>\<open>int(x)\<close> truncates towards zero\<close>
  "py_int x = (if 0 \<le> x then \<lfloor>x\<rfloor> else \<lceil>x\<rceil>)"

definition merge_body ::
  "world \<Rightarrow> sys \<Rightarrow> (string \<times> real) list \<Rightarrow> string \<Rightarrow> real \<Rightarrow> (exn + bool) \<times> sys" where
  "merge_body w s segments_info output_audio total_duration =
     (let inputs = map (\<lambda>(audio_file, start_time). (audio_file, py_int (start_time * 1000)))
                     segments_info;
          cmd = Amix inputs [Dynaudnorm 75 25 0.95 10, Loudnorm (- 16) (- 1.5) 11]
                  total_duration output_audio
      in case run_cmd w s cmd of
           (Inl e, s1) \<Rightarrow> (Inl e, s1)
         | (Inr returncode, s1) \<Rightarrow>
             (Inr (returncode = 0 \<and> output_audio \<in> dom (files s1)), s1))"

definition merge_audio_segments_fast ::
  "world \<Rightarrow> sys \<Rightarrow> (string \<times> real) list \<Rightarrow> string \<Rightarrow> real \<Rightarrow> bool \<times> sys" where
  "merge_audio_segments_fast w s segments_info output_audio total_duration =
     (if segments_info = [] then (False, s)
      else case merge_body w s segments_info output_audio total_duration of
             (Inl e, s1) \<Rightarrow> (False, s1)
           | (Inr ok, s1) \<Rightarrow> (ok, s1))"


section \<open>The language job\<close>

record lang_info =
  name :: string
  gtts_code :: string

text \<open>The sixteen configured languages; the names are the UTF-8 bytes of the source's.\<close>

definition LANGUAGE_CONFIG :: "string \<rightharpoonup> lang_info" where
  "LANGUAGE_CONFIG = map_of
     [(''zh'', \<lparr>name = [CHR 0xE4, CHR 0xB8, CHR 0xAD, CHR 0xE6, CHR 0x96, CHR 0x87],
               gtts_code = ''zh-CN''\<rparr>),
      (''en'', \<lparr>name = [CHR 0xE8, CHR 0x8B, CHR 0xB1, CHR 0xE8, CHR 0xAF, CHR 0xAD],
               gtts_code = ''en''\<rparr>),
      (''ja'', \<lparr>name = [CHR 0xE6, CHR 0x97, CHR 0xA5, CHR 0xE8, CHR 0xAF, CHR 0xAD],
               gtts_code = ''ja''\<rparr>),
      (''ko'', \<lparr>name = [CHR 0xE9, CHR 0x9F, CHR 0xA9, CHR 0xE8, CHR 0xAF, CHR 0xAD],
               gtts_code = ''ko''\<rparr>),
      (''fr'', \<lparr>name = [CHR 0xE6, CHR 0xB3, CHR 0x95, CHR 0xE8, CHR 0xAF, CHR 0xAD],
               gtts_code = ''fr''\<rparr>),
      (''de'', \<lparr>name = [CHR 0xE5, CHR 0xBE, CHR 0xB7, CHR 0xE8, CHR 0xAF, CHR 0xAD],
               gtts_code = ''de''\<rparr>),
      (''es'', \<lparr>name = [CHR 0xE8, CHR 0xA5, CHR 0xBF, CHR 0xE8, CHR 0xAF, CHR 0xAD],
               gtts_code = ''es''\<rparr>),
      (''pt'', \<lparr>name = [CHR 0xE8, CHR 0x91, CHR 0xA1, CHR 0xE8, CHR 0xAF, CHR 0xAD],
               gtts_code = ''pt''\<rparr>),
      (''ru'', \<lparr>name = [CHR 0xE4, CHR 0xBF, CHR 0x84, CHR 0xE8, CHR 0xAF, CHR 0xAD],
               gtts_code = ''ru''\<rparr>),
      (''ar'', \<lparr>name = [CHR 0xE9, CHR 0x98, CHR 0xBF, CHR 0xE6, CHR 0x8B, CHR 0x89,
                        CHR 0xE4, CHR 0xBC, CHR 0xAF, CHR 0xE8, CHR 0xAF, CHR 0xAD],
               gtts_code = ''ar''\<rparr>),
      (''hi'', \<lparr>name = [CHR 0xE5, CHR 0x8D, CHR 0xB0, CHR 0xE5, CHR 0xBA, CHR 0xA6,
                        CHR 0xE8, CHR 0xAF, CHR 0xAD],
               gtts_code = ''hi''\<rparr>),
      (''th'', \<lparr>name = [CHR 0xE6, CHR 0xB3, CHR 0xB0, CHR 0xE8, CHR 0xAF, CHR 0xAD],
               gtts_code = ''th''\<rparr>),
      (''vi'', \<lparr>name = [CHR 0xE8, CHR 0xB6, CHR 0x8A, CHR 0xE5, CHR 0x8D, CHR 0x97,
                        CHR 0xE8, CHR 0xAF, CHR 0xAD],
               gtts_code = ''vi''\<rparr>),
      (''it'', \<lparr>name = [CHR 0xE6, CHR 0x84, CHR 0x8F, CHR 0xE5, CHR 0xA4, CHR 0xA7,
                        CHR 0xE5, CHR 0x88, CHR 0xA9, CHR 0xE8, CHR 0xAF, CHR 0xAD],
               gtts_code = ''it''\<rparr>),
      (''tr'', \<lparr>name = [CHR 0xE5, CHR 0x9C, CHR 0x9F, CHR 0xE8, CHR 0x80, CHR 0xB3,
                        CHR 0xE5, CHR 0x85, CHR 0xB6, CHR 0xE8, CHR 0xAF, CHR 0xAD],
               gtts_code = ''tr''\<rparr>),
      (''id'', \<lparr>name = [CHR 0xE5, CHR 0x8D, CHR 0xB0, CHR 0xE5, CHR 0xB0, CHR 0xBC,
                        CHR 0xE8, CHR 0xAF, CHR 0xAD],
               gtts_code = ''id''\<rparr>)]"

record LanguageStrategy =
  tts_speed_min :: real
  tts_speed_max :: real
  video_speed_min :: real
  video_speed_max :: real

definition DEFAULT_STRATEGY :: LanguageStrategy where
  "DEFAULT_STRATEGY =
     \<lparr>tts_speed_min = 0.7, tts_speed_max = 1.5, video_speed_min = 0.85, video_speed_max = 1.0\<rparr>"

record job_result =
  lang_code :: string
  language :: string
  success :: bool
  output_video :: "string option"
  output_srt :: "string option"
  duration :: real
  error :: "string option"

text \<open>
  The three fixed reasons of a failed job, as UTF-8 bytes: "no speech segment was
  generated", "merging the audio failed", "generating the video failed".
\<close>

definition no_segments_msg :: string where
  "no_segments_msg =
     [CHR 0xE6, CHR 0xB2, CHR 0xA1, CHR 0xE6, CHR 0x9C, CHR 0x89, CHR 0xE6, CHR 0x88, CHR 0x90,
      CHR 0xE5, CHR 0x8A, CHR 0x9F, CHR 0xE7, CHR 0x94, CHR 0x9F, CHR 0xE6, CHR 0x88, CHR 0x90,
      CHR 0xE4, CHR 0xBB, CHR 0xBB, CHR 0xE4, CHR 0xBD, CHR 0x95, CHR 0xE8, CHR 0xAF, CHR 0xAD,
      CHR 0xE9, CHR 0x9F, CHR 0xB3, CHR 0xE6, CHR 0xAE, CHR 0xB5, CHR 0xE8, CHR 0x90, CHR 0xBD]"

definition merge_failed_msg :: string where
  "merge_failed_msg =
     [CHR 0xE9, CHR 0x9F, CHR 0xB3, CHR 0xE9, CHR 0xA2, CHR 0x91, CHR 0xE5, CHR 0x90, CHR 0x88,
      CHR 0xE5, CHR 0xB9, CHR 0xB6, CHR 0xE5, CHR 0xA4, CHR 0xB1, CHR 0xE8, CHR 0xB4, CHR 0xA5]"

definition video_failed_msg :: string where
  "video_failed_msg =
     [CHR 0xE8, CHR 0xA7, CHR 0x86, CHR 0xE9, CHR 0xA2, CHR 0x91, CHR 0xE7, CHR 0x94, CHR 0x9F,
      CHR 0xE6, CHR 0x88, CHR 0x90, CHR 0xE5, CHR 0xA4, CHR 0xB1, CHR 0xE8, CHR 0xB4, CHR 0xA5]"

definition os_path_join :: "string \<Rightarrow> string \<Rightarrow> string" where
  \<comment> \<open>\<^verbatim>\<open>posixpath.join\<close> of two components\<close>
  "os_path_join a b =
     (if b \<noteq> [] \<and> hd b = CHR ''/'' then b
      else if a = [] \<or> last a = CHR ''/'' then a @ b
      else a @ ''/'' @ b)"

fun string_of_nat :: "nat \<Rightarrow> string" where
  "string_of_nat n =
     (if n < 10 then [''0123456789'' ! n]
      else string_of_nat (n div 10) @ [''0123456789'' ! (n mod 10)])"

declare string_of_nat.simps [simp del]

definition pad3 :: "nat \<Rightarrow> string" where
  \<comment> \<open>the format \<^verbatim>\<open>{i:03d}\<close>\<close>
  "pad3 i = (let d = string_of_nat i in replicate (3 - length d) (CHR ''0'') @ d)"

definition is_space :: "char \<Rightarrow> bool" where
  \<comment> \<open>the ASCII characters that \<^verbatim>\<open>str.strip()\<close> removes\<close>
  "is_space c =
     (c \<in> {CHR 0x20, CHR 0x09, CHR 0x0A, CHR 0x0B, CHR 0x0C, CHR 0x0D,
            CHR 0x1C, CHR 0x1D, CHR 0x1E, CHR 0x1F})"

definition strip :: "string \<Rightarrow> string" where
  "strip t = rev (dropWhile is_space (rev (dropWhile is_space t)))"

text \<open>
  A submitted segment task: the entry's index, the clip path, the entry's start offset,
  and what \<^verbatim>\<open>generate_segment_voice_fast\<close> returned. The four worker threads write
  disjoint files (one clip path per index), so the tasks are run here in submission
  order; the order in which they complete is \<open>finish_rank\<close>'s. The task catches every
  exception itself, so \<^verbatim>\<open>future.result()\<close> always gives a truth value.
\<close>

type_synonym future = "nat \<times> string \<times> real \<times> bool"

fun submit_segments ::
  "world \<Rightarrow> sys \<Rightarrow> string \<Rightarrow> string \<Rightarrow> real \<times> real \<Rightarrow> (nat \<times> subtitle) list
     \<Rightarrow> future list \<times> sys" where
  "submit_segments w s temp_dir code speed_limit [] = ([], s)"
| "submit_segments w s temp_dir code speed_limit ((i, sub) # rest) =
     (let text = strip (sub_content sub)
      in if text = [] then submit_segments w s temp_dir code speed_limit rest
         else
           let audio_file = os_path_join temp_dir (''seg_'' @ pad3 i @ ''.mp3'');
               target_duration = sub_end sub - sub_start sub;
               start_time = sub_start sub;
               (ok, s1) = generate_segment_voice_fast w s text code audio_file
                            target_duration speed_limit;
               (futures, s2) = submit_segments w s1 temp_dir code speed_limit rest
           in ((i, audio_file, start_time, ok) # futures, s2))"

definition as_completed :: "world \<Rightarrow> future list \<Rightarrow> future list" where
  "as_completed w futures = sort_key (\<lambda>(i, audio_file, start_time, ok). finish_rank w i) futures"

definition collect_segments :: "future list \<Rightarrow> (string \<times> real) list" where
  "collect_segments completed =
     map (\<lambda>(i, audio_file, start_time, ok). (audio_file, start_time))
       (filter (\<lambda>(i, audio_file, start_time, ok). ok) completed)"

definition rebind_start_time :: "real \<Rightarrow> future list \<Rightarrow> real" where
  \<comment> \<open>both loops assign the local variable \<^verbatim>\<open>start_time\<close> in every iteration\<close>
  "rebind_start_time t fs = foldl (\<lambda>_ (i, audio_file, start_time, ok). start_time) t fs"

fun remove_existing :: "sys \<Rightarrow> string list \<Rightarrow> sys" where
  \<comment> \<open>\<^verbatim>\<open>if os.path.exists(p): os.remove(p)\<close> for each path\<close>
  "remove_existing s [] = s"
| "remove_existing s (p # ps) =
     remove_existing (if p \<in> dom (files s) then s\<lparr>files := (files s)(p := None)\<rparr> else s) ps"

text \<open>
  The \<^verbatim>\<open>try\<close> block of \<^verbatim>\<open>process_single_language\<close>, in two parts; \<open>Inl\<close> is an
  exception on its way to the \<^verbatim>\<open>except\<close> clause. Directories are not part of the
  state, so \<^verbatim>\<open>os.rmdir\<close>, whose failure the source ignores, leaves no trace.

  Phase 3, from the adjusted subtitle file to the check of the final video:
\<close>

definition job_phase3 ::
  "world \<Rightarrow> sys \<Rightarrow> job_result \<Rightarrow> real \<Rightarrow> string \<Rightarrow> string \<Rightarrow> string \<Rightarrow> string
     \<Rightarrow> (string \<times> real) list \<Rightarrow> string \<Rightarrow> (exn + job_result) \<times> sys" where
  "job_phase3 w s2 result start_time video_file lang temp_dir output_dir segments_info
       merged_audio =
     (let out_srt = os_path_join output_dir (''output_'' @ lang @ ''.srt'')
      in case write_srt w out_srt of
           Inl m \<Rightarrow> (Inl (Raised m), s2)
         | Inr n \<Rightarrow>
             let s3 = s2\<lparr>files := (files s2)(out_srt \<mapsto> n)\<rparr>;
                 video_only = os_path_join temp_dir ''video_only.mp4''
             in case run_cmd w s3 (Burn_subtitles video_file out_srt video_only) of
                  (Inl e, s4) \<Rightarrow> (Inl e, s4)
                | (Inr rc1, s4) \<Rightarrow>
                    let out_video = os_path_join output_dir (''output_'' @ lang @ ''.mp4'')
                    in case run_cmd w s4
                              (Mux video_only merged_audio [Loudnorm (- 16) (- 1.5) 11]
                                 out_video) of
                         (Inl e, s5) \<Rightarrow> (Inl e, s5)
                       | (Inr rc2, s5) \<Rightarrow>
                           let s6 = remove_existing s5 (map fst segments_info);
                               s7 = remove_existing s6 [video_only]
                           in if out_video \<in> dom (files s7) then
                                (Inr (result\<lparr>success := True,
                                        output_video := Some out_video,
                                        output_srt := Some out_srt,
                                        duration := time_at_end w - start_time\<rparr>), s7)
                              else (Inr (result\<lparr>error := Some video_failed_msg\<rparr>), s7))"

text \<open>Phases 1 and 2: the segment clips and their mix.\<close>

definition job_body ::
  "world \<Rightarrow> sys \<Rightarrow> job_result \<Rightarrow> real \<Rightarrow> string \<Rightarrow> string \<Rightarrow> lang_info \<Rightarrow> string \<Rightarrow> string
     \<Rightarrow> real \<Rightarrow> (exn + job_result) \<times> sys" where
  "job_body w s result start_time0 video_file lang info srt_file output_dir video_duration =
     (let strategy = DEFAULT_STRATEGY;
          temp_dir = os_path_join output_dir (''temp_'' @ lang)
      in case makedirs w temp_dir of
           Some m \<Rightarrow> (Inl (Raised m), s)
         | None \<Rightarrow>
             (case read_srt w srt_file of
                Inl m \<Rightarrow> (Inl (Raised m), s)
              | Inr subs \<Rightarrow>
                  let (futures, s1) =
                        submit_segments w s temp_dir (gtts_code info)
                          (tts_speed_min strategy, tts_speed_max strategy) (enumerate 0 subs);
                      completed = as_completed w futures;
                      start_time = rebind_start_time (rebind_start_time start_time0 futures)
                                     completed;
                      segments_info = collect_segments completed
                  in if segments_info = [] then
                       (Inr (result\<lparr>error := Some no_segments_msg\<rparr>), s1)
                     else
                       let merged_audio = os_path_join output_dir (''audio_'' @ lang @ ''.mp3'')
                       in case merge_audio_segments_fast w s1 segments_info merged_audio
                                 video_duration of
                            (False, s2) \<Rightarrow> (Inr (result\<lparr>error := Some merge_failed_msg\<rparr>), s2)
                          | (True, s2) \<Rightarrow>
                              job_phase3 w s2 result start_time video_file lang temp_dir
                                output_dir segments_info merged_audio))"

text \<open>
  The configured language is looked up before the \<^verbatim>\<open>try\<close>: an unknown code raises
  \<^verbatim>\<open>KeyError\<close> out of the function.
\<close>

definition process_single_language ::
  "world \<Rightarrow> sys \<Rightarrow> string \<Rightarrow> string \<Rightarrow> string \<Rightarrow> string \<Rightarrow> real \<Rightarrow> (exn + job_result) \<times> sys" where
  "process_single_language w s video_file lang srt_file output_dir video_duration =
     (let start_time = time_at_start w
      in case LANGUAGE_CONFIG lang of
           None \<Rightarrow> (Inl (KeyError lang), s)
         | Some info \<Rightarrow>
             let result = \<lparr>lang_code = lang, language = name info, success = False,
                           output_video = None, output_srt = None, duration = 0,
                           error = None\<rparr>
             in case job_body w s result start_time video_file lang info srt_file output_dir
                       video_duration of
                  (Inl e, s') \<Rightarrow> (Inr (result\<lparr>error := Some (str_exn e)\<rparr>), s')
                | (Inr r, s') \<Rightarrow> (Inr r, s'))"


section \<open>The batch orchestrator\<close>

text \<open>
  An entry of the results list: the dictionary a job returned, or the four-key dictionary
  (\<^verbatim>\<open>lang_code\<close>, \<^verbatim>\<open>language\<close>, \<^verbatim>\<open>success: False\<close>, \<^verbatim>\<open>error\<close>) built when awaiting the
  job raised.
\<close>

datatype result_entry = Returned job_result | Caught string string string

fun entry_success :: "result_entry \<Rightarrow> bool" where
  \<comment> \<open>\<^verbatim>\<open>r['success']\<close>\<close>
  "entry_success (Returned r) = success r"
| "entry_success (Caught l n e) = False"

fun entry_get_duration :: "result_entry \<Rightarrow> real" where
  \<comment> \<open>\<^verbatim>\<open>r.get('duration', 0)\<close>\<close>
  "entry_get_duration (Returned r) = duration r"
| "entry_get_duration (Caught l n e) = 0"

fun entry_error :: "result_entry \<Rightarrow> string option" where
  "entry_error (Returned r) = error r"
| "entry_error (Caught l n e) = Some e"

fun entry_lang_code :: "result_entry \<Rightarrow> string" where
  "entry_lang_code (Returned r) = lang_code r"
| "entry_lang_code (Caught l n e) = l"

record batch_report =
  total_time :: real
  total_languages :: nat
  success_count :: nat
  max_workers :: int
  results :: "result_entry list"

record FastParallelProcessor =
  video_file :: string
  output_dir :: string
  video_duration :: real

text \<open>
  The world of a batch: the world of each job (by position in the pair list), whether
  the worker process of a job is lost so that awaiting its future raises, the order of
  completion, the two clock readings, and whether the report file can be opened.
\<close>

record batch_world =
  cpu_count :: int
  job_world :: "nat \<Rightarrow> world"
  job_crash :: "nat \<Rightarrow> string option"
  job_finish_rank :: "nat \<Rightarrow> nat"
  batch_time_at_start :: real
  batch_time_at_end :: real
  open_report :: "string \<Rightarrow> string option"

text \<open>
  What a call leaves behind: the report it returns or the exception it raises, the
  speed-up figure it printed (if any), the report document it wrote (if any), and the
  state.
\<close>

record batch_outcome =
  returned :: "exn + batch_report"
  printed_speedup :: "real option"
  persisted :: "(string \<times> batch_report) option"
  final :: sys

type_synonym job_future = "nat \<times> string \<times> string \<times> (exn + job_result)"

text \<open>
  The submission loop. A job is submitted first and the name of its language looked up
  second; the lookup raises for an unknown code. The pool is shut down with
  \<^verbatim>\<open>wait=True\<close> when the exception leaves the \<^verbatim>\<open>with\<close> block, so the jobs submitted so
  far have run. Jobs work in directories and on files named by their language code and
  are run here in submission order.
\<close>

fun submit_jobs ::
  "batch_world \<Rightarrow> sys \<Rightarrow> FastParallelProcessor \<Rightarrow> nat \<Rightarrow> (string \<times> string) list
     \<Rightarrow> (exn + job_future list) \<times> sys" where
  "submit_jobs bw s self i [] = (Inr [], s)"
| "submit_jobs bw s self i ((lang, srt_file) # rest) =
     (let (outcome, s1) =
            process_single_language (job_world bw i) s (video_file self) lang srt_file
              (output_dir self) (video_duration self);
          future_result = (case job_crash bw i of Some m \<Rightarrow> Inl (Raised m) | None \<Rightarrow> outcome)
      in case LANGUAGE_CONFIG lang of
           None \<Rightarrow> (Inl (KeyError lang), s1)
         | Some info \<Rightarrow>
             (case submit_jobs bw s1 self (Suc i) rest of
                (Inl e, s2) \<Rightarrow> (Inl e, s2)
              | (Inr futures, s2) \<Rightarrow> (Inr ((i, lang, name info, future_result) # futures), s2)))"

definition collect_results :: "batch_world \<Rightarrow> job_future list \<Rightarrow> result_entry list" where
  "collect_results bw futures =
     map (\<lambda>(i, lang, lang_name, future_result).
            case future_result of
              Inr result \<Rightarrow> Returned result
            | Inl e \<Rightarrow> Caught lang lang_name (str_exn e))
       (sort_key (\<lambda>(i, lang, lang_name, future_result). job_finish_rank bw i) futures)"

definition batch_process_parallel ::
  "batch_world \<Rightarrow> sys \<Rightarrow> FastParallelProcessor \<Rightarrow> (string \<times> string) list \<Rightarrow> int option
     \<Rightarrow> batch_outcome" where
  "batch_process_parallel bw s self language_srt_pairs max_workers_arg =
     (let start_time = batch_time_at_start bw;
          workers = (case max_workers_arg of
                       None \<Rightarrow> min (cpu_count bw) (min (int (length language_srt_pairs)) 4)
                     | Some m \<Rightarrow> m)
      in if workers \<le> 0 then
           \<comment> \<open>\<^verbatim>\<open>ProcessPoolExecutor\<close> refuses a pool without workers\<close>
           \<lparr>returned = Inl (ValueError ''max_workers must be greater than 0''),
            printed_speedup = None, persisted = None, final = s\<rparr>
         else
           case submit_jobs bw s self 0 language_srt_pairs of
             (Inl e, s1) \<Rightarrow>
               \<lparr>returned = Inl e, printed_speedup = None, persisted = None, final = s1\<rparr>
           | (Inr futures, s1) \<Rightarrow>
               let rs = collect_results bw futures;
                   elapsed = batch_time_at_end bw - start_time;
                   succeeded = sum_list (map (\<lambda>r. 1) (filter entry_success rs))
               in if length rs = 0 then
                    \<comment> \<open>\<^verbatim>\<open>total_time/len(results)\<close> in the summary\<close>
                    \<lparr>returned = Inl ZeroDivisionError, printed_speedup = None,
                     persisted = None, final = s1\<rparr>
                  else
                    let speedup =
                          (if workers > 1 then
                             let sequential_time =
                                   sum_list (map entry_get_duration (filter entry_success rs))
                             in Some (if elapsed > 0 then sequential_time / elapsed else 1)
                           else None);
                        report = \<lparr>total_time = elapsed, total_languages = length rs,
                                  success_count = succeeded, max_workers = workers,
                                  results = rs\<rparr>;
                        report_file = os_path_join (output_dir self) ''batch_report.json''
                    in case open_report bw report_file of
                         Some m \<Rightarrow>
                           \<lparr>returned = Inl (Raised m), printed_speedup = speedup,
                            persisted = None, final = s1\<rparr>
                       | None \<Rightarrow>
                           \<lparr>returned = Inr report, printed_speedup = speedup,
                            persisted = Some (report_file, report), final = s1\<rparr>)"

text \<open>
  The speed-up shown when a run has finished, from \<^verbatim>\<open>on_processing_finished\<close> of
  \<^verbatim>\<open>gui_app_v1.py\<close>, computed from the report.
\<close>

definition on_processing_finished_speedup :: "batch_report \<Rightarrow> real" where
  "on_processing_finished_speedup report =
     (let total_count = int (total_languages report);
          workers = max_workers report
      in if workers > 1 \<and> total_count > 1 then
           let ideal_speedup = min workers total_count
           in min (real_of_int ideal_speedup * 0.7) (real_of_int ideal_speedup)
         else 1.0)"


section \<open>Notions used in the statements\<close>


fun is_mix :: "proc \<Rightarrow> bool" where
  "is_mix (Ffmpeg (Amix ins chain t out)) = True"
| "is_mix p = False"

definition nonempty_file :: "sys \<Rightarrow> string \<Rightarrow> bool" where
  \<comment> \<open>\<^verbatim>\<open>os.path.exists(p) and os.path.getsize(p) > 0\<close>\<close>
  "nonempty_file s p = (case files s p of None \<Rightarrow> False | Some n \<Rightarrow> 0 < n)"


section \<open>Concrete worlds\<close>

definition demo_world :: world where
  "demo_world =
     \<lparr>gtts_save = (\<lambda>text code path. Saved 4000),
      ffprobe = (\<lambda>path. ProbeStdout (Seconds 1)),
      ffmpeg = (\<lambda>cmd. Exited 0 (Some 9000)),
      makedirs = (\<lambda>d. None),
      read_srt = (\<lambda>p. Inr [\<lparr>sub_start = 5, sub_end = 7, sub_content = ''hello''\<rparr>]),
      write_srt = (\<lambda>p. Inr 40),
      finish_rank = (\<lambda>i. i),
      time_at_start = 1000,
      time_at_end = 1060\<rparr>"

definition demo_sys :: sys where
  "demo_sys = \<lparr>files = Map.empty, calls = []\<rparr>"

definition demo_batch_world :: batch_world where
  "demo_batch_world =
     \<lparr>cpu_count = 8,
      job_world = (\<lambda>i. demo_world),
      job_crash = (\<lambda>i. None),
      job_finish_rank = (\<lambda>i. i),
      batch_time_at_start = 1000,
      batch_time_at_end = 1100,
      open_report = (\<lambda>p. None)\<rparr>"

definition demo_processor :: FastParallelProcessor where
  "demo_processor = \<lparr>video_file = ''v.mp4'', output_dir = ''out'', video_duration = 10\<rparr>"


text \<open>
  A world in which the clock of a job starts at 0 and the only subtitle entry starts at
  offset 0, and a batch of two such jobs that takes 100 seconds.
\<close>

definition steady_world :: world where
  "steady_world =
     demo_world\<lparr>read_srt := (\<lambda>p. Inr [\<lparr>sub_start = 0, sub_end = 2, sub_content = ''hello''\<rparr>]),
                time_at_start := 0, time_at_end := 60\<rparr>"

definition steady_batch_world :: batch_world where
  "steady_batch_world =
     demo_batch_world\<lparr>job_world := (\<lambda>i. steady_world), batch_time_at_start := 0,
                       batch_time_at_end := 100\<rparr>"

definition two_pairs :: "(string \<times> string) list" where
  "two_pairs = [(''en'', ''v_en.srt''), (''es'', ''v_es.srt'')]"

definition steady_report :: batch_report where
  "steady_report =
     \<lparr>total_time = 100, total_languages = 2, success_count = 2, max_workers = 2,
      results =
        [Returned \<lparr>lang_code = ''en'',
                   language = [CHR 0xE8, CHR 0x8B, CHR 0xB1, CHR 0xE8, CHR 0xAF, CHR 0xAD],
                   success = True, output_video = Some ''out/output_en.mp4'',
                   output_srt = Some ''out/output_en.srt'', duration = 60, error = None\<rparr>,
         Returned \<lparr>lang_code = ''es'',
                   language = [CHR 0xE8, CHR 0xA5, CHR 0xBF, CHR 0xE8, CHR 0xAF, CHR 0xAD],
                   success = True, output_video = Some ''out/output_es.mp4'',
                   output_srt = Some ''out/output_es.srt'', duration = 60, error = None\<rparr>]\<rparr>"


text \<open>
  The same batch when the worker process of the second job is lost, and a pair list
  with a language code that is not configured.
\<close>

definition crash_batch_world :: batch_world where
  "crash_batch_world =
     steady_batch_world\<lparr>job_crash := (\<lambda>i. if i = 1 then Some ''worker lost'' else None)\<rparr>"

definition crash_report :: batch_report where
  "crash_report =
     \<lparr>total_time = 100, total_languages = 2, success_count = 1, max_workers = 2,
      results =
        [Returned \<lparr>lang_code = ''en'',
                   language = [CHR 0xE8, CHR 0x8B, CHR 0xB1, CHR 0xE8, CHR 0xAF, CHR 0xAD],
                   success = True, output_video = Some ''out/output_en.mp4'',
                   output_srt = Some ''out/output_en.srt'', duration = 60, error = None\<rparr>,
         Caught ''es'' [CHR 0xE8, CHR 0xA5, CHR 0xBF, CHR 0xE8, CHR 0xAF, CHR 0xAD]
           ''worker lost'']\<rparr>"

definition unknown_pairs :: "(string \<times> string) list" where
  "unknown_pairs = [(''en'', ''v_en.srt''), (''xx'', ''v_xx.srt'')]"


section \<open>The segment synthesizer: properties\<close>




lemma temp_differs: "out \<noteq> out @ ''_init.mp3''" "out @ ''_init.mp3'' \<noteq> out"
  by simp_all





text \<open>
  Claim C6 fails on the code: the normal returns delete the natural-rate file
  (\<open>segment_return_cleans\<close> below), the \<^verbatim>\<open>except\<close> path does not. When ffprobe prints
  something that is not a number, \<^verbatim>\<open>float\<close> raises, the function returns \<^verbatim>\<open>False\<close>, and
  the file is still there. The same happens when ffprobe cannot be started, and when the
  target duration is zero and the division raises.
\<close>

theorem natural_rate_file_left_behind:
  "generate_segment_voice_fast (demo_world\<lparr>ffprobe := (\<lambda>p. ProbeStdout NotANumber)\<rparr>) demo_sys
      ''hola'' ''es'' ''seg_000.mp3'' 2 (0.7, 1.5) =
     (False, \<lparr>files = [''seg_000.mp3_init.mp3'' \<mapsto> 4000],
              calls = [Ffprobe ''seg_000.mp3_init.mp3'']\<rparr>)
   \<and> generate_segment_voice_fast
        (demo_world\<lparr>ffprobe := (\<lambda>p. ProbeRaises ''No such file or directory: ffprobe'')\<rparr>)
        demo_sys ''hola'' ''es'' ''seg_000.mp3'' 2 (0.7, 1.5) =
     (False, \<lparr>files = [''seg_000.mp3_init.mp3'' \<mapsto> 4000],
              calls = [Ffprobe ''seg_000.mp3_init.mp3'']\<rparr>)
   \<and> generate_segment_voice_fast demo_world demo_sys ''hola'' ''es'' ''seg_000.mp3'' 0 (0.7, 1.5) =
     (False, \<lparr>files = [''seg_000.mp3_init.mp3'' \<mapsto> 4000],
              calls = [Ffprobe ''seg_000.mp3_init.mp3'']\<rparr>)"
  by (simp add: generate_segment_voice_fast_def segment_body_def demo_world_def demo_sys_def
      py_float_def segment_command_def Let_def)

lemma segment_return_cleans:
  assumes "segment_body w s txt code out d bounds = (Inr ok, s')"
  shows "files s' (out @ ''_init.mp3'') = None"
  using assms
  by (auto simp: segment_body_def Let_def py_float_def os_remove_def
      split: save_outcome.splits probe_outcome.splits sum.splits if_splits prod.splits duration_text.splits)

lemma segment_command_shape:
  "case segment_command ti out n d bounds of
     Inl e \<Rightarrow> True
   | Inr cmd \<Rightarrow> cmd_output cmd = out \<and> \<not> is_mix (Ffmpeg cmd)"
  by (simp add: segment_command_def Let_def)

lemma segment_command_output:
  "segment_command ti out n d bounds = Inr cmd \<Longrightarrow> cmd_output cmd = out"
  using segment_command_shape[where ti=ti and out=out and n=n and d=d and bounds=bounds] by simp

lemma segment_command_not_mix:
  "segment_command ti out n d bounds = Inr cmd \<Longrightarrow> \<not> is_mix (Ffmpeg cmd)"
  using segment_command_shape[where ti=ti and out=out and n=n and d=d and bounds=bounds] by simp

lemma segment_body_cases:
  assumes ti_def: "ti = out @ ''_init.mp3''"
    and R_def: "R = segment_body w s txt code out d bounds"
  shows "(\<exists>e. fst R = Inl e \<and> (calls (snd R) = calls s \<or> calls (snd R) = calls s @ [Ffprobe ti]))
       \<or> (\<exists>e cmd m. fst R = Inl e
             \<and> calls (snd R) = calls s @ [Ffprobe ti, Ffmpeg cmd] \<and> \<not> is_mix (Ffmpeg cmd)
             \<and> ffmpeg w cmd = RunRaises m)
       \<or> (fst R = Inr False \<and> calls (snd R) = calls s @ [Ffprobe ti])
       \<or> (\<exists>cmd rc written.
               calls (snd R) = calls s @ [Ffprobe ti, Ffmpeg cmd] \<and> \<not> is_mix (Ffmpeg cmd)
             \<and> ffmpeg w cmd = Exited rc written
             \<and> fst R = Inr (nonempty_file (snd R) out))"
proof (cases "gtts_save w txt code ti")
  case (SaveRaises m)
  then show ?thesis unfolding R_def using ti_def by (simp add: segment_body_def)
next
  case (Saved sz)
  note sv = Saved
  show ?thesis
  proof (cases "ffprobe w ti")
    case (ProbeRaises m)
    then show ?thesis unfolding R_def using ti_def sv by (simp add: segment_body_def Let_def)
  next
    case (ProbeStdout t)
    note pr = ProbeStdout
    show ?thesis
    proof (cases "py_float t")
      case (Inl e)
      then show ?thesis unfolding R_def using ti_def sv pr by (simp add: segment_body_def Let_def)
    next
      case (Inr n)
      note fl = Inr
      show ?thesis
      proof (cases "n = 0")
        case True
        then show ?thesis unfolding R_def using ti_def sv pr fl
          by (simp add: segment_body_def Let_def os_remove_def)
      next
        case False
        note n0 = False
        show ?thesis
        proof (cases "segment_command ti out n d bounds")
          case (Inl e)
          then show ?thesis unfolding R_def using ti_def sv pr fl n0
            by (simp add: segment_body_def Let_def)
        next
          case (Inr cmd)
          note sc = Inr
          have co: "cmd_output cmd = out" using sc by (rule segment_command_output)
          have nm: "\<not> is_mix (Ffmpeg cmd)" using sc by (rule segment_command_not_mix)
          show ?thesis
          proof (cases "ffmpeg w cmd")
            case (RunRaises m)
            then show ?thesis unfolding R_def using ti_def sv pr fl n0 sc nm
              by (simp add: segment_body_def Let_def run_cmd_def)
          next
            case (Exited rc written)
            then show ?thesis unfolding R_def using ti_def sv pr fl n0 sc nm co
              by (cases written)
                 (simp_all add: segment_body_def Let_def run_cmd_def os_remove_def
                    nonempty_file_def)
          qed
        qed
      qed
    qed
  qed
qed

text \<open>
  Claim C9. The synthesizer returns \<^verbatim>\<open>True\<close> exactly when it got as far as the ffmpeg
  run, the run was started and exited (with whatever return code), and the output path
  then holds a file of positive size. A run that exits with code 1 and leaves a file of
  9000 bytes is reported as a success.
\<close>

theorem segment_success_is_nonempty_output:
  "fst (generate_segment_voice_fast w s txt code out d bounds) =
     (\<exists>cmd rc written.
         calls (snd (generate_segment_voice_fast w s txt code out d bounds)) =
           calls s @ [Ffprobe (out @ ''_init.mp3''), Ffmpeg cmd]
       \<and> ffmpeg w cmd = Exited rc written
       \<and> nonempty_file (snd (generate_segment_voice_fast w s txt code out d bounds)) out)
   \<and> fst (generate_segment_voice_fast (demo_world\<lparr>ffmpeg := (\<lambda>cmd. Exited 1 (Some 9000))\<rparr>)
            demo_sys ''hi'' ''en'' ''seg.mp3'' 0.5 (0.7, 1.5))"
proof
  let ?R = "segment_body w s txt code out d bounds"
  have g: "generate_segment_voice_fast w s txt code out d bounds =
             (case fst ?R of Inl e \<Rightarrow> False | Inr ok \<Rightarrow> ok, snd ?R)"
    by (simp add: generate_segment_voice_fast_def split: prod.splits sum.splits)
  show "fst (generate_segment_voice_fast w s txt code out d bounds) =
     (\<exists>cmd rc written.
         calls (snd (generate_segment_voice_fast w s txt code out d bounds)) =
           calls s @ [Ffprobe (out @ ''_init.mp3''), Ffmpeg cmd]
       \<and> ffmpeg w cmd = Exited rc written
       \<and> nonempty_file (snd (generate_segment_voice_fast w s txt code out d bounds)) out)"
    unfolding g fst_conv snd_conv
    using segment_body_cases[OF refl refl, of "w" "s" "txt" "code" "out" "d" "bounds"]
    by (elim disjE exE conjE) auto
  show "fst (generate_segment_voice_fast (demo_world\<lparr>ffmpeg := (\<lambda>cmd. Exited 1 (Some 9000))\<rparr>)
            demo_sys ''hi'' ''en'' ''seg.mp3'' 0.5 (0.7, 1.5))"
    by (simp add: generate_segment_voice_fast_def segment_body_def demo_world_def demo_sys_def
        py_float_def Let_def segment_command_def run_cmd_def os_remove_def)
qed



section \<open>The timeline mixer: properties\<close>

text \<open>
  Claim C5. With an empty clip set the mixer returns \<^verbatim>\<open>False\<close> and leaves the state as it
  was, whatever the total duration: no process is started.
\<close>

theorem mixer_empty_clip_set_fails: "merge_audio_segments_fast w s [] output_audio total_duration = (False, s)"
  by (simp add: merge_audio_segments_fast_def)


section \<open>The language job: properties\<close>


lemma submit_segments_starts:
  "(i, audio_file, st, ok) \<in> set (fst (submit_segments w s temp_dir code bounds subs)) \<Longrightarrow>
     \<exists>sub. (i, sub) \<in> set subs \<and> st = sub_start sub"
proof (induction subs arbitrary: s)
  case Nil
  then show ?case by simp
next
  case (Cons a subs)
  obtain j sub where a: "a = (j, sub)" by (cases a)
  show ?case
    using Cons.prems Cons.IH
    by (simp add: a Let_def split: prod.splits if_splits) (metis fst_conv)+
qed

lemma as_completed_set: "set (as_completed w futures) = set futures"
  by (simp add: as_completed_def)


lemma rebind_start_time_snoc:
  "rebind_start_time t (fs @ [(i, audio_file, st, ok)]) = st"
  by (simp add: rebind_start_time_def)

lemma rebind_start_time_last:
  "fs \<noteq> [] \<Longrightarrow> \<exists>i audio_file ok. (i, audio_file, rebind_start_time t fs, ok) \<in> set fs"
proof (induction fs rule: rev_induct)
  case Nil
  then show ?case by simp
next
  case (snoc x xs)
  obtain i a st ok where x: "x = (i, a, st, ok)" by (cases x)
  show ?case unfolding x rebind_start_time_snoc by auto
qed



text \<open>
  Claim C7 fails on the code. The local variable \<^verbatim>\<open>start_time\<close>, set from the clock in
  the first line of the job, is assigned again in both loops over the subtitle entries,
  where it holds the start offset of an entry. A job that starts at clock time 1000,
  ends at 1060 and whose only entry starts at offset 5 reports a duration of 1055
  seconds, not 60.
\<close>

theorem job_duration_is_not_elapsed:
  "fst (process_single_language demo_world demo_sys ''v.mp4'' ''en'' ''v_en.srt'' ''out'' 10) =
     Inr \<lparr>lang_code = ''en'',
          language = [CHR 0xE8, CHR 0x8B, CHR 0xB1, CHR 0xE8, CHR 0xAF, CHR 0xAD],
          success = True, output_video = Some ''out/output_en.mp4'',
          output_srt = Some ''out/output_en.srt'', duration = 1055, error = None\<rparr>
   \<and> time_at_end demo_world - time_at_start demo_world = 60"
  by (simp add: process_single_language_def job_body_def job_phase3_def LANGUAGE_CONFIG_def
      demo_world_def demo_sys_def DEFAULT_STRATEGY_def enumerate_eq_zip strip_def is_space_def
      os_path_join_def pad3_def string_of_nat.simps generate_segment_voice_fast_def
      segment_body_def py_float_def segment_command_def run_cmd_def os_remove_def
      normalize_filter_def as_completed_def collect_segments_def rebind_start_time_def
      merge_audio_segments_fast_def merge_body_def py_int_def Let_def numeral_2_eq_2
      numeral_3_eq_3)

text \<open>
  The same holds of every successful job (a successful job has at least one clip, so the
  loops have run): its duration is the final clock reading minus the start offset of one
  of its subtitle entries.
\<close>

lemma job_phase3_success:
  assumes "job_phase3 w s2 result st video lang td od segs merged = (Inr r, s')"
    and "\<not> success result" and "success r"
  shows "duration r = time_at_end w - st"
  using assms
  by (auto simp: job_phase3_def Let_def split: sum.splits prod.splits if_splits)

lemma job_phase3_lang_code:
  assumes "job_phase3 w s2 result st video lang td od segs merged = (Inr r, s')"
  shows "lang_code r = lang_code result"
  using assms
  by (auto simp: job_phase3_def Let_def split: sum.splits prod.splits if_splits)

lemma job_body_lang_code:
  assumes "job_body w s result t0 video lang info srt od dur = (Inr r, s')"
  shows "lang_code r = lang_code result"
  using assms
  by (auto simp: job_body_def Let_def dest: job_phase3_lang_code
      split: option.splits sum.splits prod.splits if_splits bool.splits)

lemma process_single_language_lang_code:
  assumes "process_single_language w s video lang srt od dur = (Inr r, s')"
  shows "lang_code r = lang"
  using assms
  by (auto simp: process_single_language_def Let_def dest: job_body_lang_code
      split: option.splits sum.splits prod.splits)

lemma process_single_language_configured:
  "LANGUAGE_CONFIG lang = Some info \<Longrightarrow>
     \<exists>r s'. process_single_language w s video lang srt od dur = (Inr r, s')"
  by (auto simp: process_single_language_def Let_def split: sum.splits prod.splits)

lemma successful_job_duration:
  assumes run: "process_single_language w s video lang srt od dur = (Inr r, s')"
    and ok: "success r"
  shows "\<exists>subs sub. read_srt w srt = Inr subs \<and> sub \<in> set subs
           \<and> duration r = time_at_end w - sub_start sub"
proof -
  obtain info where cfg: "LANGUAGE_CONFIG lang = Some info"
    using run by (cases "LANGUAGE_CONFIG lang") (auto simp: process_single_language_def)
  define result where "result = \<lparr>lang_code = lang, language = name info, success = False,
     output_video = None, output_srt = None, duration = 0, error = None\<rparr>"
  have body: "job_body w s result (time_at_start w) video lang info srt od dur = (Inr r, s')"
    using run ok cfg
    by (auto simp: process_single_language_def Let_def result_def split: sum.splits prod.splits)
  let ?td = "os_path_join od (''temp_'' @ lang)"
  obtain subs where rd: "read_srt w srt = Inr subs" and mk: "makedirs w ?td = None"
    using body by (auto simp: job_body_def Let_def split: option.splits sum.splits)
  obtain futures s1 where sub:
    "submit_segments w s ?td (gtts_code info) (0.7, 1.5) (enumerate 0 subs) = (futures, s1)"
    by (cases "submit_segments w s ?td (gtts_code info) (0.7, 1.5) (enumerate 0 subs)")
  let ?completed = "as_completed w futures"
  let ?st = "rebind_start_time (rebind_start_time (time_at_start w) futures) ?completed"
  have nonempty: "collect_segments ?completed \<noteq> []"
    using body ok rd mk sub
    by (auto simp: job_body_def Let_def DEFAULT_STRATEGY_def result_def)
  then have ne: "?completed \<noteq> []" by (auto simp: collect_segments_def)
  have "\<exists>s2. job_phase3 w s2 result ?st video lang ?td od (collect_segments ?completed)
          (os_path_join od (''audio_'' @ lang @ ''.mp3'')) = (Inr r, s')"
    using body ok rd mk sub nonempty
    by (auto simp: job_body_def Let_def DEFAULT_STRATEGY_def result_def
        split: prod.splits bool.splits)
  then have d: "duration r = time_at_end w - ?st"
    using job_phase3_success ok by (fastforce simp: result_def)
  obtain i a okf where "(i, a, ?st, okf) \<in> set ?completed"
    using rebind_start_time_last[OF ne] by blast
  then have "(i, a, ?st, okf) \<in> set (fst (submit_segments w s ?td (gtts_code info) (0.7, 1.5)
      (enumerate 0 subs)))"
    using sub by (simp add: as_completed_set)
  then obtain sb where "(i, sb) \<in> set (enumerate 0 subs)" and "?st = sub_start sb"
    using submit_segments_starts by blast
  then have "sb \<in> set subs" by (auto simp: enumerate_eq_zip dest: set_zip_rightD)
  then show ?thesis using rd d \<open>?st = sub_start sb\<close> by auto
qed


section \<open>The batch orchestrator: properties\<close>

lemma submit_jobs_configured:
  assumes "\<forall>p \<in> set pairs. LANGUAGE_CONFIG (fst p) \<noteq> None"
  shows "\<exists>futures s'. submit_jobs bw s self i pairs = (Inr futures, s')
      \<and> map (\<lambda>(j, l, n, res). l) futures = map fst pairs
      \<and> (\<forall>(j, l, n, res) \<in> set futures. \<forall>r. res = Inr r \<longrightarrow> lang_code r = l)
      \<and> (\<forall>k < length pairs. \<forall>m. job_crash bw (i + k) = Some m \<longrightarrow>
            (\<exists>n. (i + k, fst (pairs ! k), n, Inl (Raised m)) \<in> set futures))"
  using assms
proof (induction pairs arbitrary: s i)
  case Nil
  then show ?case by simp
next
  case (Cons p pairs)
  obtain lang srt where p: "p = (lang, srt)" by (cases p)
  obtain info where cfg: "LANGUAGE_CONFIG lang = Some info"
    using Cons.prems p by auto
  obtain r s1 where run:
    "process_single_language (job_world bw i) s (video_file self) lang srt (output_dir self)
       (video_duration self) = (Inr r, s1)"
    using process_single_language_configured[OF cfg] by blast
  have lc: "lang_code r = lang"
    using run by (rule process_single_language_lang_code)
  have "\<forall>p \<in> set pairs. LANGUAGE_CONFIG (fst p) \<noteq> None"
    using Cons.prems by simp
  then have ih: "\<exists>futures s'. submit_jobs bw s1 self (Suc i) pairs = (Inr futures, s')
      \<and> map (\<lambda>(j, l, n, res). l) futures = map fst pairs
      \<and> (\<forall>(j, l, n, res) \<in> set futures. \<forall>r. res = Inr r \<longrightarrow> lang_code r = l)
      \<and> (\<forall>k < length pairs. \<forall>m. job_crash bw (Suc i + k) = Some m \<longrightarrow>
            (\<exists>n. (Suc i + k, fst (pairs ! k), n, Inl (Raised m)) \<in> set futures))"
    by (rule Cons.IH)
  then obtain futures s2 where rest: "submit_jobs bw s1 self (Suc i) pairs = (Inr futures, s2)"
    and langs: "map (\<lambda>(j, l, n, res). l) futures = map fst pairs"
    and each: "\<forall>(j, l, n, res) \<in> set futures. \<forall>r. res = Inr r \<longrightarrow> lang_code r = l"
    and crashed: "\<forall>k < length pairs. \<forall>m. job_crash bw (Suc i + k) = Some m \<longrightarrow>
            (\<exists>n. (Suc i + k, fst (pairs ! k), n, Inl (Raised m)) \<in> set futures)"
    by blast
  define fr where "fr = (case job_crash bw i of Some m \<Rightarrow> Inl (Raised m) | None \<Rightarrow> Inr r)"
  have eq: "submit_jobs bw s self i (p # pairs) = (Inr ((i, lang, name info, fr) # futures), s2)"
    using run rest cfg by (simp add: p fr_def)
  have c1: "map (\<lambda>(j, l, n, res). l) ((i, lang, name info, fr) # futures) = map fst (p # pairs)"
    using langs by (simp add: p)
  have c2: "\<forall>(j, l, n, res) \<in> set ((i, lang, name info, fr) # futures).
              \<forall>r. res = Inr r \<longrightarrow> lang_code r = l"
    using each lc by (auto simp: fr_def split: option.splits)
  have c3: "\<forall>k < length (p # pairs). \<forall>m. job_crash bw (i + k) = Some m \<longrightarrow>
            (\<exists>n. (i + k, fst ((p # pairs) ! k), n, Inl (Raised m))
                    \<in> set ((i, lang, name info, fr) # futures))"
  proof (intro allI impI)
    fix k m
    assume k: "k < length (p # pairs)" and crash: "job_crash bw (i + k) = Some m"
    show "\<exists>n. (i + k, fst ((p # pairs) ! k), n, Inl (Raised m))
                 \<in> set ((i, lang, name info, fr) # futures)"
    proof (cases k)
      case 0
      then have "fr = Inl (Raised m)" using crash by (simp add: fr_def)
      then show ?thesis using 0 by (auto simp: p)
    next
      case (Suc k')
      then have "k' < length pairs" and "job_crash bw (Suc i + k') = Some m"
        using k crash by simp_all
      then obtain n where "(Suc i + k', fst (pairs ! k'), n, Inl (Raised m)) \<in> set futures"
        using crashed by blast
      then show ?thesis using Suc by auto
    qed
  qed
  show ?case using eq c1 c2 c3 by blast
qed

lemma submit_jobs_unconfigured:
  assumes "find (\<lambda>p. LANGUAGE_CONFIG (fst p) = None) pairs = Some (code, srt)"
  shows "\<exists>s'. submit_jobs bw s self i pairs = (Inl (KeyError code), s')"
  using assms
proof (induction pairs arbitrary: s i)
  case Nil
  then show ?case by simp
next
  case (Cons p pairs)
  obtain lang f where p: "p = (lang, f)" by (cases p)
  obtain res s1 where run:
    "process_single_language (job_world bw i) s (video_file self) lang f (output_dir self)
       (video_duration self) = (res, s1)"
    by (cases "process_single_language (job_world bw i) s (video_file self) lang f
       (output_dir self) (video_duration self)")
  show ?case
  proof (cases "LANGUAGE_CONFIG lang")
    case None
    then show ?thesis using Cons.prems run by (simp add: p)
  next
    case (Some info)
    then have "find (\<lambda>p. LANGUAGE_CONFIG (fst p) = None) pairs = Some (code, srt)"
      using Cons.prems by (simp add: p)
    then obtain s' where "submit_jobs bw s1 self (Suc i) pairs = (Inl (KeyError code), s')"
      using Cons.IH by blast
    then show ?thesis using Some run by (simp add: p)
  qed
qed

lemma count_ones: "sum_list (map (\<lambda>r. Suc 0) xs) = length xs"
  by (induction xs) simp_all

lemma collect_results_length: "length (collect_results bw futures) = length futures"
  by (simp add: collect_results_def)

lemma collect_results_langs:
  assumes "\<forall>(j, l, n, res) \<in> set futures. \<forall>r. res = Inr r \<longrightarrow> lang_code r = l"
  shows "mset (map entry_lang_code (collect_results bw futures)) =
           mset (map (\<lambda>(j, l, n, res). l) futures)"
proof -
  let ?sorted = "sort_key (\<lambda>(i, lang, lang_name, future_result). job_finish_rank bw i) futures"
  have "map entry_lang_code (collect_results bw futures) = map (\<lambda>(j, l, n, res). l) ?sorted"
    unfolding collect_results_def map_map
  proof (rule map_cong[OF refl])
    fix x assume "x \<in> set ?sorted"
    then have x: "x \<in> set futures" by simp
    obtain j l n res where xe: "x = (j, l, n, res)" by (cases x)
    show "(entry_lang_code \<circ> (\<lambda>(i, lang, lang_name, future_result).
              case future_result of Inl e \<Rightarrow> Caught lang lang_name (str_exn e)
              | Inr result \<Rightarrow> Returned result)) x = (case x of (j, l, n, res) \<Rightarrow> l)"
      using assms x xe by (cases res) auto
  qed
  moreover have "mset (map (\<lambda>(j, l, n, res). l) ?sorted) = mset (map (\<lambda>(j, l, n, res). l) futures)"
    by simp
  ultimately show ?thesis by simp
qed

lemma collect_results_caught:
  assumes "(j, l, n, Inl (Raised m)) \<in> set futures"
  shows "Caught l n m \<in> set (collect_results bw futures)"
proof -
  have "(j, l, n, Inl (Raised m)) \<in>
          set (sort_key (\<lambda>(i, lang, lang_name, future_result). job_finish_rank bw i) futures)"
    using assms by simp
  then show ?thesis
    unfolding collect_results_def by (force simp: image_iff)
qed

lemma workers_positive:
  assumes "pairs \<noteq> []" and "case mw of None \<Rightarrow> 0 < cpu_count bw | Some m \<Rightarrow> 0 < m"
  shows "\<not> (case mw of None \<Rightarrow> min (cpu_count bw) (min (int (length pairs)) 4) | Some m \<Rightarrow> m) \<le> 0"
  using assms by (cases mw) (auto simp: min_def)

text \<open>The two concrete batch runs, evaluated.\<close>

lemmas job_eval =
  process_single_language_def job_body_def job_phase3_def LANGUAGE_CONFIG_def
  demo_world_def steady_world_def DEFAULT_STRATEGY_def enumerate_eq_zip strip_def is_space_def
  os_path_join_def pad3_def string_of_nat.simps generate_segment_voice_fast_def
  segment_body_def py_float_def segment_command_def run_cmd_def os_remove_def
  normalize_filter_def as_completed_def collect_segments_def rebind_start_time_def
  merge_audio_segments_fast_def merge_body_def py_int_def Let_def numeral_2_eq_2
  numeral_3_eq_3

lemma steady_job_en:
  "fst (process_single_language steady_world s ''v.mp4'' ''en'' ''v_en.srt'' ''out'' 10) =
     Inr \<lparr>lang_code = ''en'',
          language = [CHR 0xE8, CHR 0x8B, CHR 0xB1, CHR 0xE8, CHR 0xAF, CHR 0xAD],
          success = True, output_video = Some ''out/output_en.mp4'',
          output_srt = Some ''out/output_en.srt'', duration = 60, error = None\<rparr>"
  by (simp add: job_eval)

lemma steady_job_es:
  "fst (process_single_language steady_world s ''v.mp4'' ''es'' ''v_es.srt'' ''out'' 10) =
     Inr \<lparr>lang_code = ''es'',
          language = [CHR 0xE8, CHR 0xA5, CHR 0xBF, CHR 0xE8, CHR 0xAF, CHR 0xAD],
          success = True, output_video = Some ''out/output_es.mp4'',
          output_srt = Some ''out/output_es.srt'', duration = 60, error = None\<rparr>"
  by (simp add: job_eval)

lemma steady_submit:
  "fst (submit_jobs steady_batch_world s demo_processor 0 two_pairs) =
     Inr [(0, ''en'', [CHR 0xE8, CHR 0x8B, CHR 0xB1, CHR 0xE8, CHR 0xAF, CHR 0xAD],
           Inr \<lparr>lang_code = ''en'',
          language = [CHR 0xE8, CHR 0x8B, CHR 0xB1, CHR 0xE8, CHR 0xAF, CHR 0xAD],
          success = True, output_video = Some ''out/output_en.mp4'',
          output_srt = Some ''out/output_en.srt'', duration = 60, error = None\<rparr>),
          (1, ''es'', [CHR 0xE8, CHR 0xA5, CHR 0xBF, CHR 0xE8, CHR 0xAF, CHR 0xAD],
           Inr \<lparr>lang_code = ''es'',
          language = [CHR 0xE8, CHR 0xA5, CHR 0xBF, CHR 0xE8, CHR 0xAF, CHR 0xAD],
          success = True, output_video = Some ''out/output_es.mp4'',
          output_srt = Some ''out/output_es.srt'', duration = 60, error = None\<rparr>)]"
  by (simp add: two_pairs_def steady_batch_world_def demo_batch_world_def demo_processor_def
      split_beta steady_job_en steady_job_es LANGUAGE_CONFIG_def)

lemma steady_batch_run:
  "returned (batch_process_parallel steady_batch_world demo_sys demo_processor two_pairs (Some 2))
     = Inr steady_report
   \<and> printed_speedup (batch_process_parallel steady_batch_world demo_sys demo_processor two_pairs
        (Some 2)) = Some (6 / 5)
   \<and> persisted (batch_process_parallel steady_batch_world demo_sys demo_processor two_pairs
        (Some 2)) = Some (''out/batch_report.json'', steady_report)"
proof -
  obtain s1 where sub: "submit_jobs steady_batch_world demo_sys demo_processor 0 two_pairs =
     (Inr [(0, ''en'', [CHR 0xE8, CHR 0x8B, CHR 0xB1, CHR 0xE8, CHR 0xAF, CHR 0xAD],
           Inr \<lparr>lang_code = ''en'',
          language = [CHR 0xE8, CHR 0x8B, CHR 0xB1, CHR 0xE8, CHR 0xAF, CHR 0xAD],
          success = True, output_video = Some ''out/output_en.mp4'',
          output_srt = Some ''out/output_en.srt'', duration = 60, error = None\<rparr>),
          (1, ''es'', [CHR 0xE8, CHR 0xA5, CHR 0xBF, CHR 0xE8, CHR 0xAF, CHR 0xAD],
           Inr \<lparr>lang_code = ''es'',
          language = [CHR 0xE8, CHR 0xA5, CHR 0xBF, CHR 0xE8, CHR 0xAF, CHR 0xAD],
          success = True, output_video = Some ''out/output_es.mp4'',
          output_srt = Some ''out/output_es.srt'', duration = 60, error = None\<rparr>)], s1)"
    using steady_submit[of demo_sys]
    by (cases "submit_jobs steady_batch_world demo_sys demo_processor 0 two_pairs") simp
  show ?thesis
    unfolding batch_process_parallel_def sub
    by (simp add: collect_results_def steady_batch_world_def demo_batch_world_def
        demo_processor_def steady_report_def os_path_join_def Let_def)
qed

lemma crash_submit:
  "fst (submit_jobs crash_batch_world s demo_processor 0 two_pairs) =
     Inr [(0, ''en'', [CHR 0xE8, CHR 0x8B, CHR 0xB1, CHR 0xE8, CHR 0xAF, CHR 0xAD],
           Inr \<lparr>lang_code = ''en'',
          language = [CHR 0xE8, CHR 0x8B, CHR 0xB1, CHR 0xE8, CHR 0xAF, CHR 0xAD],
          success = True, output_video = Some ''out/output_en.mp4'',
          output_srt = Some ''out/output_en.srt'', duration = 60, error = None\<rparr>),
          (1, ''es'', [CHR 0xE8, CHR 0xA5, CHR 0xBF, CHR 0xE8, CHR 0xAF, CHR 0xAD],
           Inl (Raised ''worker lost''))]"
  by (simp add: two_pairs_def crash_batch_world_def steady_batch_world_def
      demo_batch_world_def demo_processor_def split_beta steady_job_en LANGUAGE_CONFIG_def)

lemma crash_batch_run:
  "returned (batch_process_parallel crash_batch_world demo_sys demo_processor two_pairs (Some 2))
     = Inr crash_report
   \<and> persisted (batch_process_parallel crash_batch_world demo_sys demo_processor two_pairs
        (Some 2)) = Some (''out/batch_report.json'', crash_report)"
proof -
  obtain s1 where sub: "submit_jobs crash_batch_world demo_sys demo_processor 0 two_pairs =
     (Inr [(0, ''en'', [CHR 0xE8, CHR 0x8B, CHR 0xB1, CHR 0xE8, CHR 0xAF, CHR 0xAD],
           Inr \<lparr>lang_code = ''en'',
          language = [CHR 0xE8, CHR 0x8B, CHR 0xB1, CHR 0xE8, CHR 0xAF, CHR 0xAD],
          success = True, output_video = Some ''out/output_en.mp4'',
          output_srt = Some ''out/output_en.srt'', duration = 60, error = None\<rparr>),
          (1, ''es'', [CHR 0xE8, CHR 0xA5, CHR 0xBF, CHR 0xE8, CHR 0xAF, CHR 0xAD],
           Inl (Raised ''worker lost''))], s1)"
    using crash_submit[of demo_sys]
    by (cases "submit_jobs crash_batch_world demo_sys demo_processor 0 two_pairs") simp
  show ?thesis
    unfolding batch_process_parallel_def sub
    by (simp add: collect_results_def crash_batch_world_def steady_batch_world_def
        demo_batch_world_def demo_processor_def crash_report_def os_path_join_def Let_def)
qed

text \<open>
  Claim C2. In every report that a batch run writes, the success count is the number of
  results whose success flag is set, and the language count is the length of the results
  list.
\<close>

theorem report_counts_match_results:
  assumes "persisted (batch_process_parallel bw s self pairs mw) = Some (path, rep)"
  shows "success_count rep = length (filter entry_success (results rep))
       \<and> total_languages rep = length (results rep)"
  using assms
  by (auto simp: batch_process_parallel_def Let_def count_ones
      split: if_splits prod.splits sum.splits option.splits)

theorem report_counts_match_results_witness:
  "persisted (batch_process_parallel steady_batch_world demo_sys demo_processor two_pairs
      (Some 2)) = Some (''out/batch_report.json'', steady_report)
   \<and> success_count steady_report = length (filter entry_success (results steady_report))
   \<and> total_languages steady_report = length (results steady_report)"
proof -
  have p: "persisted (batch_process_parallel steady_batch_world demo_sys demo_processor two_pairs
      (Some 2)) = Some (''out/batch_report.json'', steady_report)"
    using steady_batch_run by simp
  show ?thesis
    using p report_counts_match_results [OF p] by simp
qed

text \<open>
  Claim C3. When every language of a non-empty pair list is configured, the pool can be
  created and the report file can be opened, the run returns and writes a report with
  one record for each submitted pair (the language codes of the records are those of the
  pairs, with multiplicity), whatever the jobs do; and each pair whose job raised while
  it was awaited has a record with the success flag unset and the message of the
  exception as its error.
\<close>

theorem every_pair_gets_one_record:
  assumes cfg: "\<forall>p \<in> set pairs. LANGUAGE_CONFIG (fst p) \<noteq> None"
    and ne: "pairs \<noteq> []"
    and pool: "case mw of None \<Rightarrow> 0 < cpu_count bw | Some m \<Rightarrow> 0 < m"
    and opens: "open_report bw (os_path_join (output_dir self) ''batch_report.json'') = None"
  shows "\<exists>rep. returned (batch_process_parallel bw s self pairs mw) = Inr rep
      \<and> persisted (batch_process_parallel bw s self pairs mw) =
          Some (os_path_join (output_dir self) ''batch_report.json'', rep)
      \<and> length (results rep) = length pairs
      \<and> mset (map entry_lang_code (results rep)) = mset (map fst pairs)
      \<and> (\<forall>k < length pairs. \<forall>m. job_crash bw k = Some m \<longrightarrow>
            (\<exists>r \<in> set (results rep). entry_lang_code r = fst (pairs ! k)
                 \<and> \<not> entry_success r \<and> entry_error r = Some m))"
proof -
  obtain futures s1 where sub: "submit_jobs bw s self 0 pairs = (Inr futures, s1)"
    and langs: "map (\<lambda>(j, l, n, res). l) futures = map fst pairs"
    and each: "\<forall>(j, l, n, res) \<in> set futures. \<forall>r. res = Inr r \<longrightarrow> lang_code r = l"
    and crashed: "\<forall>k < length pairs. \<forall>m. job_crash bw (0 + k) = Some m \<longrightarrow>
            (\<exists>n. (0 + k, fst (pairs ! k), n, Inl (Raised m)) \<in> set futures)"
    using submit_jobs_configured[OF cfg, of bw s self 0] by blast
  let ?rs = "collect_results bw futures"
  have len: "length ?rs = length pairs"
    using langs collect_results_length[of bw futures] by (metis length_map)
  then have ne': "length ?rs \<noteq> 0" and ne'': "?rs \<noteq> []" using ne by auto
  have ms: "mset (map entry_lang_code ?rs) = mset (map fst pairs)"
    using collect_results_langs[OF each, of bw] langs by simp
  have caught: "\<forall>k < length pairs. \<forall>m. job_crash bw k = Some m \<longrightarrow>
            (\<exists>r \<in> set ?rs. entry_lang_code r = fst (pairs ! k)
                 \<and> \<not> entry_success r \<and> entry_error r = Some m)"
  proof (intro allI impI)
    fix k m assume "k < length pairs" and "job_crash bw k = Some m"
    then obtain n where "(k, fst (pairs ! k), n, Inl (Raised m)) \<in> set futures"
      using crashed by auto
    then have "Caught (fst (pairs ! k)) n m \<in> set ?rs"
      by (rule collect_results_caught)
    then show "\<exists>r \<in> set ?rs. entry_lang_code r = fst (pairs ! k)
                 \<and> \<not> entry_success r \<and> entry_error r = Some m"
      by (intro bexI[of _ "Caught (fst (pairs ! k)) n m"]) simp_all
  qed
  show ?thesis
    using workers_positive[OF ne pool] sub opens ne' ne'' len ms caught
    by (simp add: batch_process_parallel_def Let_def)
qed

theorem every_pair_gets_one_record_witness:
  "LANGUAGE_CONFIG ''en'' \<noteq> None \<and> LANGUAGE_CONFIG ''es'' \<noteq> None
   \<and> two_pairs \<noteq> []
   \<and> open_report crash_batch_world (os_path_join (output_dir demo_processor) ''batch_report.json'')
        = None
   \<and> job_crash crash_batch_world 1 = Some ''worker lost''
   \<and> returned (batch_process_parallel crash_batch_world demo_sys demo_processor two_pairs
        (Some 2)) = Inr crash_report
   \<and> persisted (batch_process_parallel crash_batch_world demo_sys demo_processor two_pairs
        (Some 2)) = Some (''out/batch_report.json'', crash_report)
   \<and> length (results crash_report) = length two_pairs
   \<and> mset (map entry_lang_code (results crash_report)) = mset (map fst two_pairs)
   \<and> Caught ''es'' [CHR 0xE8, CHR 0xA5, CHR 0xBF, CHR 0xE8, CHR 0xAF, CHR 0xAD] ''worker lost''
        \<in> set (results crash_report)"
proof -
  have h1: "\<forall>p \<in> set two_pairs. LANGUAGE_CONFIG (fst p) \<noteq> None"
    by (simp add: two_pairs_def LANGUAGE_CONFIG_def)
  have h2: "two_pairs \<noteq> []" by (simp add: two_pairs_def)
  have h3: "case Some (2::int) of None \<Rightarrow> 0 < cpu_count crash_batch_world | Some m \<Rightarrow> 0 < m"
    by simp
  have h4: "open_report crash_batch_world
              (os_path_join (output_dir demo_processor) ''batch_report.json'') = None"
    by (simp add: crash_batch_world_def steady_batch_world_def demo_batch_world_def)
  show ?thesis
    using h4 crash_batch_run every_pair_gets_one_record [OF h1 h2 h3 h4, of demo_sys]
    by (simp add: two_pairs_def LANGUAGE_CONFIG_def crash_report_def crash_batch_world_def)
qed

lemma unknown_language_raises:
  assumes "find (\<lambda>p. LANGUAGE_CONFIG (fst p) = None) pairs = Some (code, srt)"
  shows "(\<exists>e. returned (batch_process_parallel bw s self pairs mw) = Inl e)
       \<and> persisted (batch_process_parallel bw s self pairs mw) = None
       \<and> printed_speedup (batch_process_parallel bw s self pairs mw) = None
       \<and> ((case mw of None \<Rightarrow> 0 < cpu_count bw | Some m \<Rightarrow> 0 < m) \<longrightarrow>
            returned (batch_process_parallel bw s self pairs mw) = Inl (KeyError code))"
proof -
  obtain s1 where sub: "submit_jobs bw s self 0 pairs = (Inl (KeyError code), s1)"
    using submit_jobs_unconfigured[OF assms] by blast
  have ne: "pairs \<noteq> []" using assms by auto
  have pos: "(case mw of None \<Rightarrow> 0 < cpu_count bw | Some m \<Rightarrow> 0 < m) \<Longrightarrow>
      \<not> (case mw of None \<Rightarrow> min (cpu_count bw) (min (int (length pairs)) 4) | Some m \<Rightarrow> m) \<le> 0"
    using ne by (rule workers_positive)
  show ?thesis
    using sub pos
    by (auto simp: batch_process_parallel_def Let_def)
qed

lemma sixteen_languages: "card (dom LANGUAGE_CONFIG) = 16"
  by (simp add: LANGUAGE_CONFIG_def dom_map_of_conv_image_fst)

text \<open>
  Claim C10. When the pair list holds a language code that is not among the sixteen
  configured ones, the run raises: no report is returned, none is written, and no
  summary is printed. Whenever the pool can be created (a worker count that is
  unspecified with at least one CPU, or positive), the exception is the \<^verbatim>\<open>KeyError\<close> of
  the first such code, raised in the submission loop. So a run returns a report only if
  every language code of the list is configured.
\<close>

theorem unknown_language_aborts_batch:
  "card (dom LANGUAGE_CONFIG) = 16
   \<and> (find (\<lambda>p. LANGUAGE_CONFIG (fst p) = None) pairs = Some (code, srt) \<longrightarrow>
        (\<exists>e. returned (batch_process_parallel bw s self pairs mw) = Inl e)
      \<and> persisted (batch_process_parallel bw s self pairs mw) = None
      \<and> printed_speedup (batch_process_parallel bw s self pairs mw) = None
      \<and> ((case mw of None \<Rightarrow> 0 < cpu_count bw | Some m \<Rightarrow> 0 < m) \<longrightarrow>
            returned (batch_process_parallel bw s self pairs mw) = Inl (KeyError code)))
   \<and> ((\<exists>rep. returned (batch_process_parallel bw s self pairs mw) = Inr rep) \<longrightarrow>
        (\<forall>p \<in> set pairs. LANGUAGE_CONFIG (fst p) \<noteq> None))"
proof -
  have a: "card (dom LANGUAGE_CONFIG) = 16" by (rule sixteen_languages)
  have b: "find (\<lambda>p. LANGUAGE_CONFIG (fst p) = None) pairs = Some (code, srt) \<longrightarrow>
        (\<exists>e. returned (batch_process_parallel bw s self pairs mw) = Inl e)
      \<and> persisted (batch_process_parallel bw s self pairs mw) = None
      \<and> printed_speedup (batch_process_parallel bw s self pairs mw) = None
      \<and> ((case mw of None \<Rightarrow> 0 < cpu_count bw | Some m \<Rightarrow> 0 < m) \<longrightarrow>
            returned (batch_process_parallel bw s self pairs mw) = Inl (KeyError code))"
    by (rule impI) (rule unknown_language_raises)
  have c: "(\<exists>rep. returned (batch_process_parallel bw s self pairs mw) = Inr rep) \<longrightarrow>
        (\<forall>p \<in> set pairs. LANGUAGE_CONFIG (fst p) \<noteq> None)"
  proof
    assume ret: "\<exists>rep. returned (batch_process_parallel bw s self pairs mw) = Inr rep"
    show "\<forall>p \<in> set pairs. LANGUAGE_CONFIG (fst p) \<noteq> None"
    proof (rule ccontr)
      assume "\<not> (\<forall>p \<in> set pairs. LANGUAGE_CONFIG (fst p) \<noteq> None)"
      then have "find (\<lambda>p. LANGUAGE_CONFIG (fst p) = None) pairs \<noteq> None"
        by (auto simp: find_None_iff)
      then obtain c f where "find (\<lambda>p. LANGUAGE_CONFIG (fst p) = None) pairs = Some (c, f)"
        by (cases "find (\<lambda>p. LANGUAGE_CONFIG (fst p) = None) pairs") auto
      then have "\<exists>e. returned (batch_process_parallel bw s self pairs mw) = Inl e"
        using unknown_language_raises by blast
      then show False using ret by auto
    qed
  qed
  show ?thesis by (intro conjI a b c)
qed

theorem unknown_language_aborts_batch_witness:
  "find (\<lambda>p. LANGUAGE_CONFIG (fst p) = None) unknown_pairs = Some (''xx'', ''v_xx.srt'')
   \<and> 0 < cpu_count demo_batch_world
   \<and> returned (batch_process_parallel demo_batch_world demo_sys demo_processor
        unknown_pairs None) = Inl (KeyError ''xx'')
   \<and> persisted (batch_process_parallel demo_batch_world demo_sys demo_processor
        unknown_pairs None) = None
   \<and> printed_speedup (batch_process_parallel demo_batch_world demo_sys demo_processor
        unknown_pairs None) = None"
proof -
  have h: "find (\<lambda>p. LANGUAGE_CONFIG (fst p) = None) unknown_pairs = Some (''xx'', ''v_xx.srt'')"
    by (simp add: unknown_pairs_def LANGUAGE_CONFIG_def)
  have c: "0 < cpu_count demo_batch_world" by (simp add: demo_batch_world_def)
  show ?thesis
    using h c
      unknown_language_aborts_batch [of unknown_pairs "''xx''" "''v_xx.srt''" demo_batch_world
        demo_sys demo_processor None]
    by simp
qed

text \<open>
  Claim C8, as the code has it: the figure the orchestrator prints, when it runs with more
  than one worker, is the sum of the durations of the successful results divided by the
  total time (1 when the total time is not positive), whatever the number of successes.
  The estimate of 0.7 times the smaller of the worker count and the language count is
  computed elsewhere, by the completion handler of the graphical interface, from the
  report.
\<close>

theorem printed_speedup_is_measured:
  assumes "returned (batch_process_parallel bw s self pairs mw) = Inr rep"
  shows "printed_speedup (batch_process_parallel bw s self pairs mw) =
           (if max_workers rep > 1 then
              Some (if total_time rep > 0 then
                      sum_list (map entry_get_duration (filter entry_success (results rep)))
                        / total_time rep
                    else 1)
            else None)
       \<and> (max_workers rep > 1 \<and> total_languages rep > 1 \<longrightarrow>
            on_processing_finished_speedup rep =
              real_of_int (min (max_workers rep) (int (total_languages rep))) * 0.7)"
proof
  show "printed_speedup (batch_process_parallel bw s self pairs mw) =
           (if max_workers rep > 1 then
              Some (if total_time rep > 0 then
                      sum_list (map entry_get_duration (filter entry_success (results rep)))
                        / total_time rep
                    else 1)
            else None)"
    using assms
    by (auto simp: batch_process_parallel_def Let_def
        split: if_splits prod.splits sum.splits option.splits)
  show "max_workers rep > 1 \<and> total_languages rep > 1 \<longrightarrow>
            on_processing_finished_speedup rep =
              real_of_int (min (max_workers rep) (int (total_languages rep))) * 0.7"
  proof
    assume h: "max_workers rep > 1 \<and> total_languages rep > 1"
    then have "0 \<le> real_of_int (min (max_workers rep) (int (total_languages rep)))"
      by simp
    then have "min (real_of_int (min (max_workers rep) (int (total_languages rep))) * 0.7)
                 (real_of_int (min (max_workers rep) (int (total_languages rep)))) =
               real_of_int (min (max_workers rep) (int (total_languages rep))) * 0.7"
      by (simp add: min_def)
    then show "on_processing_finished_speedup rep =
              real_of_int (min (max_workers rep) (int (total_languages rep))) * 0.7"
      using h by (simp add: on_processing_finished_speedup_def Let_def)
  qed
qed

theorem printed_speedup_is_measured_witness:
  "returned (batch_process_parallel steady_batch_world demo_sys demo_processor two_pairs
      (Some 2)) = Inr steady_report
   \<and> printed_speedup (batch_process_parallel steady_batch_world demo_sys demo_processor
        two_pairs (Some 2)) = Some (120 / 100)
   \<and> max_workers steady_report > 1 \<and> total_languages steady_report > 1
   \<and> on_processing_finished_speedup steady_report = 2 * 0.7"
proof -
  have r: "returned (batch_process_parallel steady_batch_world demo_sys demo_processor two_pairs
      (Some 2)) = Inr steady_report"
    using steady_batch_run by simp
  show ?thesis
    using r printed_speedup_is_measured [OF r] by (simp add: steady_report_def)
qed

text \<open>
  The figure of the specification is not the one printed: two workers, two languages,
  both successful after 60 seconds each in a batch of 100 seconds, give 1.2 and not 1.4.
\<close>

theorem printed_speedup_is_not_the_estimate:
  "returned (batch_process_parallel steady_batch_world demo_sys demo_processor two_pairs
      (Some 2)) = Inr steady_report
   \<and> max_workers steady_report > 1
   \<and> success_count steady_report > 1
   \<and> printed_speedup (batch_process_parallel steady_batch_world demo_sys demo_processor
        two_pairs (Some 2)) \<noteq>
       Some (real_of_int (min (max_workers steady_report) (int (total_languages steady_report)))
               * 0.7)"
  using steady_batch_run by (simp add: steady_report_def)

end
